theory Spec2Isabelle
  imports Complex_Main "HOL-Library.Log_Nat"
begin

section \<open>Numbers\<close>

text \<open>
  Every coordinate of \<^verbatim>\<open>src/EuroProxyArchitectureMap.tsx\<close> is a TypeScript
  \<^verbatim>\<open>number\<close>: an IEEE 754 binary64 value. A finite value is kept by the rational
  it denotes (\<open>Num 0\<close> is \<open>+0\<close>), next to the negative zero, the two infinities and the
  one NaN the language can observe. Equality of this type is therefore the language's
  SameValue (\<^verbatim>\<open>Object.is\<close>), which is what \<^verbatim>\<open>toEqual\<close> and \<^verbatim>\<open>toBe\<close> of the file's
  own tests compare numbers with: NaN equals itself and \<open>+0\<close> differs from \<open>-0\<close>.
\<close>

datatype double = Num rat | NegZero | PosInf | NegInf | NaN

definition is_nan :: "double \<Rightarrow> bool" where
  "is_nan d = (d = NaN)"

definition is_inf :: "double \<Rightarrow> bool" where
  "is_inf d = (d = PosInf \<or> d = NegInf)"

definition is_zero :: "double \<Rightarrow> bool" where
  "is_zero d = (d = Num 0 \<or> d = NegZero)"

text \<open>The sign bit, and the rational a finite value denotes.\<close>

fun sign_bit :: "double \<Rightarrow> bool" where
  "sign_bit (Num q) = (q < 0)"
| "sign_bit NegZero = True"
| "sign_bit PosInf = False"
| "sign_bit NegInf = True"
| "sign_bit NaN = False"

fun val :: "double \<Rightarrow> rat" where
  "val (Num q) = q"
| "val d = 0"

definition signed_zero :: "bool \<Rightarrow> double" where
  "signed_zero s = (if s then NegZero else Num 0)"

definition signed_inf :: "bool \<Rightarrow> double" where
  "signed_inf s = (if s then NegInf else PosInf)"

text \<open>
  \<open>flog2 q\<close> is \<open>\<lfloor>log\<^sub>2 q\<rfloor>\<close> for a positive rational, from the bit lengths of its
  numerator and denominator.
\<close>

definition flog2 :: "rat \<Rightarrow> int" where
  "flog2 q = (let (a, b) = quotient_of q; k = bitlen a - bitlen b
              in if 2 powi k \<le> q then k else k - 1)"

text \<open>Rounding a non-negative rational to an integer, ties to the even neighbour.\<close>

definition round_half_even :: "rat \<Rightarrow> int" where
  "round_half_even r =
     (let f = \<lfloor>r\<rfloor>; d = r - of_int f
      in if d < 1 / 2 then f
         else if 1 / 2 < d then f + 1
         else if even f then f else f + 1)"

text \<open>
  The binary64 value of a non-zero rational, in the default rounding mode (to nearest,
  ties to even): 53 significant bits, the unit in the last place never below
  \<open>2\<^sup>-\<^sup>1\<^sup>0\<^sup>7\<^sup>4\<close> (subnormal numbers), and an infinity once the rounded magnitude reaches
  \<open>2\<^sup>1\<^sup>0\<^sup>2\<^sup>4\<close>.
\<close>

definition round_rat :: "rat \<Rightarrow> double" where
  "round_rat q =
     (let e = max (flog2 \<bar>q\<bar> - 52) (- 1074);
          m = round_half_even (\<bar>q\<bar> / 2 powi e);
          v = of_int m * 2 powi e
      in if 2 powi 1024 \<le> v then signed_inf (q < 0)
         else if m = 0 then signed_zero (q < 0)
         else Num (if q < 0 then - v else v))"

text \<open>
  The arithmetic of the language on these values: the exact result, rounded. A sum that
  is exactly zero is \<open>+0\<close> unless both operands are \<open>-0\<close>; subtraction adds the negated
  operand; the sign of a zero or infinite product or quotient is the exclusive or of the
  operands' signs.
\<close>

definition add_double :: "double \<Rightarrow> double \<Rightarrow> double" where
  "add_double a b =
     (if is_nan a \<or> is_nan b then NaN
      else if is_inf a then (if is_inf b \<and> a \<noteq> b then NaN else a)
      else if is_inf b then b
      else if val a + val b = 0 then signed_zero (a = NegZero \<and> b = NegZero)
      else round_rat (val a + val b))"

fun neg_double :: "double \<Rightarrow> double" where
  "neg_double (Num q) = (if q = 0 then NegZero else Num (- q))"
| "neg_double NegZero = Num 0"
| "neg_double PosInf = NegInf"
| "neg_double NegInf = PosInf"
| "neg_double NaN = NaN"

definition mul_double :: "double \<Rightarrow> double \<Rightarrow> double" where
  "mul_double a b =
     (if is_nan a \<or> is_nan b then NaN
      else if is_inf a \<or> is_inf b then
        (if is_zero a \<or> is_zero b then NaN else signed_inf (sign_bit a \<noteq> sign_bit b))
      else if val a * val b = 0 then signed_zero (sign_bit a \<noteq> sign_bit b)
      else round_rat (val a * val b))"

definition div_double :: "double \<Rightarrow> double \<Rightarrow> double" where
  "div_double a b =
     (if is_nan a \<or> is_nan b then NaN
      else if is_inf a then (if is_inf b then NaN else signed_inf (sign_bit a \<noteq> sign_bit b))
      else if is_inf b then signed_zero (sign_bit a \<noteq> sign_bit b)
      else if is_zero b then
        (if is_zero a then NaN else signed_inf (sign_bit a \<noteq> sign_bit b))
      else if val a = 0 then signed_zero (sign_bit a \<noteq> sign_bit b)
      else round_rat (val a / val b))"

instantiation double :: "{plus, minus, uminus, times, inverse}"
begin

definition plus_double :: "double \<Rightarrow> double \<Rightarrow> double" where
  "plus_double a b = add_double a b"

definition uminus_double :: "double \<Rightarrow> double" where
  "uminus_double a = neg_double a"

definition minus_double :: "double \<Rightarrow> double \<Rightarrow> double" where
  "minus_double a b = add_double a (neg_double b)"

definition times_double :: "double \<Rightarrow> double \<Rightarrow> double" where
  "times_double a b = mul_double a b"

definition divide_double :: "double \<Rightarrow> double \<Rightarrow> double" where
  "divide_double a b = div_double a b"

definition inverse_double :: "double \<Rightarrow> double" where
  "inverse_double a = div_double (Num 1) a"

instance ..

end


section \<open>Types and geometry helpers\<close>

text \<open>
  \<^verbatim>\<open>type Pt = { x: number; y: number }\<close> and
  \<^verbatim>\<open>type Rect = { x: number; y: number; w: number; h: number }\<close> (\<open>x\<close>, \<open>y\<close> the
  top-left corner); the second record extends the first, so that both have the fields
  \<open>x\<close> and \<open>y\<close> under the names of the source. \<^verbatim>\<open>Side\<close> is a union of four string
  literals that the compiler checks and the running program does not: a side is the
  string the \<^verbatim>\<open>switch\<close> statements compare, and their \<^verbatim>\<open>default\<close> branches take
  every other one. \<open>Edges\<close> is the object \<^verbatim>\<open>rectEdges\<close> returns; its field \<^verbatim>\<open>top\<close> is
  written \<open>top'\<close>, \<open>top\<close> being a constant of the logic.
\<close>

record Pt =
  x :: double
  y :: double

record Rect = Pt +
  w :: double
  h :: double

type_synonym Side = string

record Edges =
  left :: double
  right :: double
  top' :: double
  bottom :: double

text \<open>
  A template literal converts a number with the language's \<^verbatim>\<open>Number::toString\<close>; the
  path builders take that conversion as their first argument \<open>str\<close>.
\<close>

definition buildLinePath :: "(double \<Rightarrow> string) \<Rightarrow> Pt \<Rightarrow> Pt \<Rightarrow> string" where
  "buildLinePath str from to =
     ''M '' @ str (x from) @ '' '' @ str (y from) @ '' L '' @ str (x to) @ '' '' @ str (y to)"

definition midpoint :: "Pt \<Rightarrow> Pt \<Rightarrow> Pt" where
  "midpoint from to =
     \<lparr>x = x from + (x to - x from) * Num (1 / 2), y = y from + (y to - y from) * Num (1 / 2)\<rparr>"

definition rectCenter :: "Rect \<Rightarrow> Pt" where
  "rectCenter r = \<lparr>x = x r + w r / Num 2, y = y r + h r / Num 2\<rparr>"

definition rectEdges :: "Rect \<Rightarrow> Edges" where
  "rectEdges r = \<lparr>left = x r, right = x r + w r, top' = y r, bottom = y r + h r\<rparr>"

definition anchorPoint :: "Rect \<Rightarrow> Side \<Rightarrow> Pt" where
  "anchorPoint r side =
     (let c = rectCenter r; e = rectEdges r
      in if side = ''top'' then \<lparr>x = x c, y = top' e\<rparr>
         else if side = ''right'' then \<lparr>x = right e, y = y c\<rparr>
         else if side = ''bottom'' then \<lparr>x = x c, y = bottom e\<rparr>
         else if side = ''left'' then \<lparr>x = left e, y = y c\<rparr>
         else c)"

definition standoff :: "Pt \<Rightarrow> Side \<Rightarrow> double \<Rightarrow> Pt" where
  "standoff p side d =
     (if side = ''top'' then \<lparr>x = x p, y = y p - d\<rparr>
      else if side = ''right'' then \<lparr>x = x p + d, y = y p\<rparr>
      else if side = ''bottom'' then \<lparr>x = x p, y = y p + d\<rparr>
      else if side = ''left'' then \<lparr>x = x p - d, y = y p\<rparr>
      else p)"

text \<open>\<^verbatim>\<open>Array.prototype.join\<close> on strings.\<close>

fun join :: "string \<Rightarrow> string list \<Rightarrow> string" where
  "join sep [] = ''''"
| "join sep [s] = s"
| "join sep (s # t # ts) = s @ sep @ join sep (t # ts)"

definition buildPolylinePath :: "(double \<Rightarrow> string) \<Rightarrow> Pt list \<Rightarrow> string" where
  "buildPolylinePath str points =
     (if length points < 2 then ''''
      else let first = hd points; rest = tl points
           in ''M '' @ str (x first) @ '' '' @ str (y first) @ '' ''
              @ join '' '' (map (\<lambda>p. ''L '' @ str (x p) @ '' '' @ str (y p)) rest))"

text \<open>
  \<^verbatim>\<open>routed\<close>, the helper of the main component that the specification calls
  \<^verbatim>\<open>routeConnector\<close>.
\<close>

definition routed :: "Rect \<Rightarrow> Side \<Rightarrow> Rect \<Rightarrow> Side \<Rightarrow> Pt list \<Rightarrow> Pt list" where
  "routed startRect startSide endRect endSide via =
     (let start = anchorPoint startRect startSide;
          end' = anchorPoint endRect endSide;
          startOut = standoff start startSide (Num 28);
          endOut = standoff end' endSide (Num 28)
      in [start, startOut] @ via @ [endOut, end'])"

text \<open>
  The two path descriptors the \<^verbatim>\<open>Flow\<close> component builds from its points: the forward
  one and the one of a reversed copy (\<^verbatim>\<open>points.slice().reverse()\<close>).
\<close>

definition Flow_paths :: "(double \<Rightarrow> string) \<Rightarrow> Pt list \<Rightarrow> string \<times> string" where
  "Flow_paths str points =
     (let d = buildPolylinePath str points;
          rev' = buildPolylinePath str (rev points)
      in (d, rev'))"

section \<open>Reading a path descriptor\<close>

text \<open>
  The descriptors are SVG path data. What a renderer visits is read back here for the
  part of that grammar the builders emit: words separated by single spaces, an absolute
  move-to \<open>M a b\<close> followed by absolute line-tos \<open>L a b\<close>. A coordinate is kept as the
  word it is written with; the empty descriptor and every other string denote no path.
\<close>

fun split_sp :: "string \<Rightarrow> string list" where
  "split_sp [] = [[]]"
| "split_sp (c # cs) =
     (if c = CHR '' '' then [] # split_sp cs
      else (case split_sp cs of [] \<Rightarrow> [[c]] | t # ts \<Rightarrow> (c # t) # ts))"

definition word :: "string \<Rightarrow> bool" where
  "word t = (t \<noteq> [] \<and> CHR '' '' \<notin> set t)"

fun line_tos :: "string list \<Rightarrow> (string \<times> string) list option" where
  "line_tos [] = Some []"
| "line_tos (c # a # b # ts) =
     (if c = ''L'' \<and> word a \<and> word b then map_option ((#) (a, b)) (line_tos ts) else None)"
| "line_tos ts = None"

definition path_points :: "string \<Rightarrow> (string \<times> string) list option" where
  "path_points d =
     (case split_sp d of
        c # a # b # ts \<Rightarrow>
          if c = ''M'' \<and> word a \<and> word b then map_option ((#) (a, b)) (line_tos ts) else None
      | _ \<Rightarrow> None)"

text \<open>The words a point is written with.\<close>

definition written :: "(double \<Rightarrow> string) \<Rightarrow> Pt \<Rightarrow> string \<times> string" where
  "written str p = (str (x p), str (y p))"

definition words_ok :: "(double \<Rightarrow> string) \<Rightarrow> Pt list \<Rightarrow> bool" where
  "words_ok str points = list_all (\<lambda>p. word (str (x p)) \<and> word (str (y p))) points"

text \<open>
  \<^verbatim>\<open>Number::toString\<close> where it is simple: on NaN, the infinities, the two zeros (both
  written \<^verbatim>\<open>0\<close>) and the integers of magnitude at most \<open>2\<^sup>5\<^sup>3\<close>, which are written
  with all their decimal digits. The examples below convert their small integer
  coordinates with it. On every other number (a fraction, which it floors, or a larger
  integer, which the language may write with fewer significant digits) it is not the
  conversion of the language.
\<close>

definition digit :: "nat \<Rightarrow> char" where
  "digit n = ''0123456789'' ! n"

function natString :: "nat \<Rightarrow> string" where
  "natString n = (if n < 10 then [digit n] else natString (n div 10) @ [digit (n mod 10)])"
  by pat_completeness auto
termination
  by (relation "measure id") auto

definition intString :: "double \<Rightarrow> string" where
  "intString d =
     (case d of
        NaN \<Rightarrow> ''NaN''
      | PosInf \<Rightarrow> ''Infinity''
      | NegInf \<Rightarrow> ''-Infinity''
      | NegZero \<Rightarrow> ''0''
      | Num q \<Rightarrow>
          (let i = \<lfloor>q\<rfloor>
           in if i < 0 then CHR ''-'' # natString (nat (- i)) else natString (nat i)))"

section \<open>Notions of the claims that the source does not name\<close>

text \<open>The side facing a side, as claim C9 pairs them: top with bottom, left with right.\<close>

definition oppositeSide :: "Side \<Rightarrow> Side" where
  "oppositeSide s =
     (if s = ''top'' then ''bottom''
      else if s = ''bottom'' then ''top''
      else if s = ''left'' then ''right''
      else if s = ''right'' then ''left''
      else s)"

text \<open>
  The numbers of a pixel layout such as this diagram's: the finite multiples of one half
  (whole coordinates, and the halves \<^verbatim>\<open>w / 2\<close> and \<^verbatim>\<open>* 0.5\<close> produce) of magnitude at
  most \<open>2\<^sup>4\<^sup>9\<close>, the negative zero excepted: \<open>+0\<close> is on the grid and \<open>-0\<close> is not, nor
  are the infinities and NaN.
\<close>

definition on_grid :: "double \<Rightarrow> bool" where
  "on_grid d = (case d of Num q \<Rightarrow> of_int \<lfloor>2 * q\<rfloor> = 2 * q \<and> \<bar>q\<bar> \<le> 2 ^ 49 | _ \<Rightarrow> False)"

section \<open>Rounding\<close>

text \<open>\<open>flog2\<close> is the floor of the binary logarithm.\<close>

lemma bitlen_powi:
  assumes "0 < (a::int)"
  shows "2 powi (bitlen a - 1) \<le> (of_int a :: rat)" and "(of_int a :: rat) < 2 powi (bitlen a)"
proof -
  from bitlen_bounds [OF assms]
  have lo: "2 ^ nat (bitlen a - 1) \<le> a" and hi: "a < 2 ^ nat (bitlen a)"
    by auto
  from assms have pos: "1 \<le> bitlen a"
    by (simp add: bitlen_alt_def)
  from lo have "(of_int (2 ^ nat (bitlen a - 1)) :: rat) \<le> of_int a"
    by (simp only: of_int_le_iff)
  then show "2 powi (bitlen a - 1) \<le> (of_int a :: rat)"
    using pos by (simp add: power_int_nonneg_exp)
  from hi have "(of_int a :: rat) < of_int (2 ^ nat (bitlen a))"
    by (simp only: of_int_less_iff)
  then show "(of_int a :: rat) < 2 powi (bitlen a)"
    using pos by (simp add: power_int_nonneg_exp)
qed

lemma flog2_bounds:
  assumes "0 < q"
  shows "2 powi (flog2 q) \<le> q" and "q < 2 powi (flog2 q + 1)"
proof -
  obtain a b where ab: "quotient_of q = (a, b)"
    by (cases "quotient_of q")
  then have b: "0 < b" and q: "q = of_int a / of_int b"
    by (simp_all add: quotient_of_denom_pos quotient_of_div)
  with assms have a: "0 < a"
    by (simp add: zero_less_divide_iff)
  define k where "k = bitlen a - bitlen b"
  have "q < 2 powi (bitlen a) / 2 powi (bitlen b - 1)"
    unfolding q using bitlen_powi [OF a] bitlen_powi [OF b] a b
    by (intro frac_less) simp_all
  also have "\<dots> = 2 powi (k + 1)"
    by (simp add: k_def power_int_diff [symmetric] algebra_simps)
  finally have hi: "q < 2 powi (k + 1)" .
  have "2 powi (bitlen a - 1) / 2 powi (bitlen b) < q"
    unfolding q using bitlen_powi [OF a] bitlen_powi [OF b] a b
    by (intro frac_less2) simp_all
  moreover have "2 powi (bitlen a - 1) / 2 powi (bitlen b) = (2::rat) powi (k - 1)"
    by (simp add: k_def power_int_diff [symmetric] algebra_simps)
  ultimately have lo: "2 powi (k - 1) < q"
    by simp
  have f: "flog2 q = (if 2 powi k \<le> q then k else k - 1)"
    by (simp add: flog2_def ab k_def Let_def)
  show "2 powi (flog2 q) \<le> q"
    using lo by (simp add: f)
  show "q < 2 powi (flog2 q + 1)"
    using hi by (simp add: f)
qed

lemma flog2_unique:
  assumes "2 powi k \<le> q" and "q < 2 powi (k + 1)"
  shows "flog2 q = k"
proof -
  have pos: "0 < q"
    using assms(1) by (rule less_le_trans [rotated]) simp
  from flog2_bounds [OF pos] assms
  have "(2::rat) powi k < 2 powi (flog2 q + 1)" and "(2::rat) powi (flog2 q) < 2 powi (k + 1)"
    by auto
  then have "\<not> flog2 q + 1 \<le> k" and "\<not> k + 1 \<le> flog2 q"
    using power_int_increasing [of "flog2 q + 1" k "2::rat"]
      power_int_increasing [of "k + 1" "flog2 q" "2::rat"]
    by auto
  then show ?thesis
    by simp
qed

lemma round_half_even_of_int: "round_half_even (of_int j) = j"
  by (simp add: round_half_even_def)

lemma round_rat_quarter:
  assumes "n \<noteq> 0" and "\<bar>n\<bar> < 2 ^ 53"
  shows "round_rat (of_int n / 4) = Num (of_int n / 4)"
proof -
  define q :: rat where "q = of_int n / 4"
  have q0: "q \<noteq> 0"
    using assms(1) by (simp add: q_def)
  have qabs: "\<bar>q\<bar> = of_int \<bar>n\<bar> / 4"
    by (simp add: q_def)
  have "(of_int \<bar>n\<bar> :: rat) < of_int (2 ^ 53)"
    using assms(2) by (simp only: of_int_less_iff)
  then have small: "\<bar>q\<bar> < 2 powi 51"
    by (simp add: qabs)
  define e where "e = max (flog2 \<bar>q\<bar> - 52) (- 1074)"
  have "2 powi (flog2 \<bar>q\<bar>) \<le> \<bar>q\<bar>"
    using q0 by (intro flog2_bounds) simp
  with small have "(2::rat) powi (flog2 \<bar>q\<bar>) < 2 powi 51"
    by simp
  then have "\<not> 51 \<le> flog2 \<bar>q\<bar>"
    using power_int_increasing [of 51 "flog2 \<bar>q\<bar>" "2::rat"] by auto
  then have e: "e \<le> - 2"
    by (simp add: e_def)
  define t where "t = nat (- e - 2)"
  have et: "e = - (int t + 2)"
    using e by (simp add: t_def)
  have pe: "(2::rat) powi e = 1 / (4 * 2 ^ t)"
    unfolding et power_int_minus_divide by (simp add: power_int_add)
  define m where "m = \<bar>n\<bar> * 2 ^ t"
  have M: "\<bar>q\<bar> / 2 powi e = of_int m"
    by (simp add: pe qabs m_def)
  have V: "of_int m * 2 powi e = \<bar>q\<bar>"
    by (simp add: pe qabs m_def)
  have m0: "m \<noteq> 0"
    using assms(1) by (simp add: m_def)
  have big: "\<not> 2 powi 1024 \<le> \<bar>q\<bar>"
    using small power_int_increasing [of 51 1024 "2::rat"] by simp
  have "round_rat q = Num (if q < 0 then - \<bar>q\<bar> else \<bar>q\<bar>)"
    unfolding round_rat_def Let_def e_def [symmetric] M round_half_even_of_int V
    using big m0 by simp
  then show ?thesis
    by (simp add: q_def)
qed

lemma round_rat_at:
  assumes "2 powi k \<le> \<bar>q\<bar>" and "\<bar>q\<bar> < 2 powi (k + 1)"
  shows "round_rat q =
     (let e = max (k - 52) (- 1074);
          m = round_half_even (\<bar>q\<bar> / 2 powi e);
          v = of_int m * 2 powi e
      in if 2 powi 1024 \<le> v then signed_inf (q < 0)
         else if m = 0 then signed_zero (q < 0)
         else Num (if q < 0 then - v else v))"
  unfolding round_rat_def flog2_unique [OF assms] ..

lemma add_Num: "Num a + Num b = (if a + b = 0 then Num 0 else round_rat (a + b))"
  by (simp add: plus_double_def add_double_def is_nan_def is_inf_def signed_zero_def)

lemma sub_Num: "Num a - Num b = (if a - b = 0 then Num 0 else round_rat (a - b))"
  by (simp add: minus_double_def add_double_def is_nan_def is_inf_def signed_zero_def)

lemma mul_Num:
  "Num a * Num b
   = (if a * b = 0 then signed_zero ((a < 0) \<noteq> (b < 0)) else round_rat (a * b))"
  by (simp add: times_double_def mul_double_def is_nan_def is_inf_def)

lemma div_Num:
  "b \<noteq> 0 \<Longrightarrow> Num a / Num b
   = (if a = 0 then signed_zero (b < 0) else round_rat (a / b))"
  by (simp add: divide_double_def div_double_def is_nan_def is_inf_def is_zero_def)

lemma round_rat_exact:
  assumes "4 * q \<in> \<int>" and "\<bar>q\<bar> < 2 ^ 51" and "q \<noteq> 0"
  shows "round_rat q = Num q"
proof -
  from assms(1) obtain n :: int where n: "4 * q = of_int n"
    by (rule Ints_cases)
  then have q: "q = of_int n / 4"
    by simp
  have "\<bar>4 * q\<bar> < 2 ^ 53"
    using assms(2) by (simp add: abs_mult)
  then have "\<bar>(of_int n :: rat)\<bar> < of_int (2 ^ 53)"
    unfolding n by simp
  then have "\<bar>n\<bar> < 2 ^ 53"
    by (simp only: of_int_abs [symmetric] of_int_less_iff)
  moreover have "n \<noteq> 0"
    using assms(3) q by auto
  ultimately show ?thesis
    unfolding q by (intro round_rat_quarter)
qed

lemma halves_are_quarters: "2 * q \<in> \<int> \<Longrightarrow> 4 * (q::rat) \<in> \<int>"
proof -
  assume "2 * q \<in> \<int>"
  then have "2 * q + 2 * q \<in> \<int>"
    by (simp only: Ints_add)
  moreover have "2 * q + 2 * q = 4 * q"
    by simp
  ultimately show ?thesis
    by (simp only:)
qed

lemma add_exact:
  assumes "4 * a \<in> \<int>" and "4 * b \<in> \<int>" and "\<bar>a + b\<bar> < 2 ^ 51"
  shows "Num a + Num b = Num (a + b)"
proof -
  from assms(1,2) have "4 * a + 4 * b \<in> \<int>"
    by (rule Ints_add)
  then have "4 * (a + b) \<in> \<int>"
    by (simp add: distrib_left)
  from round_rat_exact [OF this assms(3)] show ?thesis
    by (simp add: add_Num)
qed

lemma sub_exact:
  assumes "4 * a \<in> \<int>" and "4 * b \<in> \<int>" and "\<bar>a - b\<bar> < 2 ^ 51"
  shows "Num a - Num b = Num (a - b)"
proof -
  from assms(1,2) have "4 * a - 4 * b \<in> \<int>"
    by (rule Ints_diff)
  then have "4 * (a - b) \<in> \<int>"
    by (simp add: right_diff_distrib)
  from round_rat_exact [OF this assms(3)] show ?thesis
    by (simp add: sub_Num)
qed

lemma half_exact:
  assumes "2 * a \<in> \<int>" and "\<bar>a\<bar> < 2 ^ 51"
  shows "Num a * Num (1 / 2) = Num (a / 2)"
proof -
  from assms(1) have "4 * (a / 2) \<in> \<int>"
    by simp
  moreover from assms(2) have "\<bar>a / 2\<bar> < 2 ^ 51"
    by simp
  ultimately have "a / 2 \<noteq> 0 \<Longrightarrow> round_rat (a / 2) = Num (a / 2)"
    by (rule round_rat_exact)
  then show ?thesis
    by (simp add: mul_Num signed_zero_def)
qed

lemma on_grid_cases:
  assumes "on_grid d"
  obtains q where "d = Num q" and "2 * q \<in> \<int>" and "\<bar>q\<bar> \<le> 2 ^ 49"
proof -
  from assms obtain q where d: "d = Num q" and fl: "of_int \<lfloor>2 * q\<rfloor> = 2 * q" and b: "\<bar>q\<bar> \<le> 2 ^ 49"
    by (auto simp: on_grid_def split: double.splits)
  have "of_int \<lfloor>2 * q\<rfloor> \<in> (\<int> :: rat set)"
    by (rule Ints_of_int)
  then have "2 * q \<in> \<int>"
    unfolding fl .
  with d show thesis
    using b by (rule that)
qed




lemma grid_sub_add:
  assumes "on_grid u" and "on_grid d"
  shows "u - d + d = u" and "u + d - d = u"
proof -
  from assms(1) obtain a where u: "u = Num a" and a: "2 * a \<in> \<int>" "\<bar>a\<bar> \<le> 2 ^ 49"
    by (rule on_grid_cases)
  from assms(2) obtain b where d: "d = Num b" and b: "2 * b \<in> \<int>" "\<bar>b\<bar> \<le> 2 ^ 49"
    by (rule on_grid_cases)
  note q = halves_are_quarters [OF a(1)] halves_are_quarters [OF b(1)]
  have s: "Num a - Num b = Num (a - b)" and t: "Num a + Num b = Num (a + b)"
    using a(2) b(2) by (intro sub_exact add_exact q; simp)+
  have "4 * a - 4 * b \<in> \<int>" and "4 * a + 4 * b \<in> \<int>"
    using q by (simp_all only: Ints_add Ints_diff)
  then have q2: "4 * (a - b) \<in> \<int>" "4 * (a + b) \<in> \<int>"
    by (simp_all add: distrib_left right_diff_distrib)
  have s': "Num (a - b) + Num b = Num (a - b + b)"
    using a(2) by (intro add_exact q q2) simp
  have t': "Num (a + b) - Num b = Num (a + b - b)"
    using a(2) by (intro sub_exact q q2) simp
  show "u - d + d = u"
    unfolding u d s s' by simp
  show "u + d - d = u"
    unfolding u d t t' by simp
qed

lemma grid_midpoint:
  assumes "on_grid u" and "on_grid v"
  shows "u + (v - u) * Num (1 / 2) = Num ((val u + val v) / 2)"
proof -
  from assms(1) obtain a where u: "u = Num a" and a: "2 * a \<in> \<int>" "\<bar>a\<bar> \<le> 2 ^ 49"
    by (rule on_grid_cases)
  from assms(2) obtain b where v: "v = Num b" and b: "2 * b \<in> \<int>" "\<bar>b\<bar> \<le> 2 ^ 49"
    by (rule on_grid_cases)
  note q = halves_are_quarters [OF a(1)] halves_are_quarters [OF b(1)]
  have s: "Num b - Num a = Num (b - a)"
    using a(2) b(2) by (intro sub_exact q) simp
  have h2: "2 * b - 2 * a \<in> \<int>"
    using a(1) b(1) by (simp only: Ints_diff)
  then have h: "2 * (b - a) \<in> \<int>"
    by (simp add: right_diff_distrib)
  have m: "Num (b - a) * Num (1 / 2) = Num ((b - a) / 2)"
    using a(2) b(2) by (intro half_exact h) simp
  have "4 * ((b - a) / 2) = 2 * b - 2 * a"
    by simp
  with h2 have "4 * ((b - a) / 2) \<in> \<int>"
    by (simp only:)
  moreover have "\<bar>a + (b - a) / 2\<bar> < 2 ^ 51"
    using a(2) b(2) by (simp add: abs_less_iff abs_le_iff diff_divide_distrib)
  ultimately have t: "Num a + Num ((b - a) / 2) = Num (a + (b - a) / 2)"
    by (intro add_exact q)
  show ?thesis
    unfolding u v s m t by (simp add: field_simps)
qed

text \<open>Rounding at the inputs of the examples below, by hand.\<close>

lemma round_half_even_tie:
  "round_half_even (of_int f + 1 / 2) = (if even f then f else f + 1)"
proof -
  have "\<lfloor>(of_int f + 1 / 2 :: rat)\<rfloor> = f"
    by (rule floor_unique) simp_all
  then show ?thesis
    by (simp add: round_half_even_def)
qed

lemma round_half_even_up:
  assumes "of_int f + 1 / 2 < r" and "r < of_int f + 1"
  shows "round_half_even r = f + 1"
proof -
  have "\<lfloor>r\<rfloor> = f"
    using assms by (intro floor_unique) simp_all
  then show ?thesis
    using assms by (simp add: round_half_even_def)
qed

lemma round_half_even_down:
  assumes "of_int f \<le> r" and "r < of_int f + 1 / 2"
  shows "round_half_even r = f"
proof -
  have "\<lfloor>r\<rfloor> = f"
    using assms by (intro floor_unique) simp_all
  then show ?thesis
    using assms by (simp add: round_half_even_def)
qed

lemma round_rat_value:
  assumes "2 powi k \<le> \<bar>q\<bar>" and "\<bar>q\<bar> < 2 powi (k + 1)"
    and "max (k - 52) (- 1074) = e"
    and "round_half_even (\<bar>q\<bar> / 2 powi e) = m"
    and "m \<noteq> 0" and "of_int m * 2 powi e = v" and "v < 2 powi 1024"
  shows "round_rat q = Num (if q < 0 then - v else v)"
  unfolding round_rat_at [OF assms(1,2)] Let_def assms(3) assms(4) assms(6)
  using assms(5,7) by simp

lemma round_2p53_plus_1:
  "round_rat 9007199254740993 = Num 9007199254740992"
  "round_rat (- 9007199254740993) = Num (- 9007199254740992)"
proof -
  have r: "round_half_even (9007199254740993 / 2) = 4503599627370496"
    using round_half_even_tie [of 4503599627370496] by simp
  show "round_rat 9007199254740993 = Num 9007199254740992"
    using round_rat_value [of 53 9007199254740993 1 4503599627370496 9007199254740992] r
    by simp
  show "round_rat (- 9007199254740993) = Num (- 9007199254740992)"
    using round_rat_value [of 53 "- 9007199254740993" 1 4503599627370496 9007199254740992] r
    by simp
qed


lemma round_near_2p52:
  "round_rat 4503599627370496 = Num 4503599627370496"
  "round_rat (- 4503599627370496) = Num (- 4503599627370496)"
  "round_rat 4503599627370497 = Num 4503599627370497"
  "round_rat 4503599627370498 = Num 4503599627370498"
  using round_rat_value [of 52 4503599627370496 0 4503599627370496 4503599627370496]
    round_rat_value [of 52 "- 4503599627370496" 0 4503599627370496 4503599627370496]
    round_rat_value [of 52 4503599627370497 0 4503599627370497 4503599627370497]
    round_rat_value [of 52 4503599627370498 0 4503599627370498 4503599627370498]
    round_half_even_of_int [of 4503599627370496]
    round_half_even_of_int [of 4503599627370497]
    round_half_even_of_int [of 4503599627370498]
  by simp_all

lemma round_1_minus_2p54: "round_rat (- 18014398509481983) = Num (- 18014398509481984)"
proof -
  have "round_half_even (18014398509481983 / 2) = 9007199254740992"
    using round_half_even_tie [of 9007199254740991] by simp
  then show ?thesis
    using round_rat_value [of 53 "- 18014398509481983" 1 9007199254740992 18014398509481984]
    by simp
qed

text \<open>
  The best-known sum of the language: \<^verbatim>\<open>0.1 + 0.2\<close> is \<^verbatim>\<open>0.30000000000000004\<close>, the
  number after \<^verbatim>\<open>0.3\<close>.
\<close>

lemma tenth: "round_rat (1 / 10) = Num (3602879701896397 / 36028797018963968)"
proof -
  have "round_half_even (\<bar>1 / 10\<bar> / 2 powi (- 56)) = 7205759403792794"
    using round_half_even_up [of 7205759403792793 "\<bar>1 / 10\<bar> / 2 powi (- 56)"] by simp
  then show ?thesis
    using round_rat_value [of "- 4" "1 / 10" "- 56" 7205759403792794 "3602879701896397 / 36028797018963968"]
    by simp
qed

lemma fifth: "round_rat (2 / 10) = Num (3602879701896397 / 18014398509481984)"
proof -
  have "round_half_even (\<bar>2 / 10\<bar> / 2 powi (- 55)) = 7205759403792794"
    using round_half_even_up [of 7205759403792793 "\<bar>2 / 10\<bar> / 2 powi (- 55)"] by simp
  then show ?thesis
    using round_rat_value [of "- 3" "2 / 10" "- 55" 7205759403792794 "3602879701896397 / 18014398509481984"]
    by simp
qed

lemma three_tenths: "round_rat (3 / 10) = Num (5404319552844595 / 18014398509481984)"
proof -
  have "round_half_even (\<bar>3 / 10\<bar> / 2 powi (- 54)) = 5404319552844595"
    using round_half_even_down [of 5404319552844595 "\<bar>3 / 10\<bar> / 2 powi (- 54)"] by simp
  then show ?thesis
    using round_rat_value [of "- 2" "3 / 10" "- 54" 5404319552844595 "5404319552844595 / 18014398509481984"]
    by simp
qed

lemma tenth_plus_fifth:
  "round_rat (1 / 10) + round_rat (2 / 10) = Num (5404319552844596 / 18014398509481984)"
proof -
  have s: "(3602879701896397 / 36028797018963968 + 3602879701896397 / 18014398509481984 :: rat)
           = 10808639105689191 / 36028797018963968"
    by simp
  have "round_half_even (\<bar>10808639105689191 / 36028797018963968\<bar> / 2 powi (- 54)) = 5404319552844596"
    using round_half_even_tie [of 5404319552844595] by simp
  then have "round_rat (10808639105689191 / 36028797018963968) = Num (5404319552844596 / 18014398509481984)"
    using round_rat_value [of "- 2" "10808639105689191 / 36028797018963968" "- 54" 5404319552844596
        "5404319552844596 / 18014398509481984"]
    by simp
  then show ?thesis
    unfolding tenth fifth add_Num s by simp
qed

lemma tenth_plus_fifth_is_not_three_tenths:
  "round_rat (1 / 10) + round_rat (2 / 10) \<noteq> round_rat (3 / 10)"
  unfolding tenth_plus_fifth three_tenths by simp



text \<open>Adding \<open>+0\<close> to \<open>-0\<close> gives \<open>+0\<close>: the one number a shift by 0 does not return.\<close>

lemma standoff_zero_negative_zero:
  "standoff \<lparr>x = NegZero, y = Num 0\<rparr> ''right'' (Num 0) = \<lparr>x = Num 0, y = Num 0\<rparr>"
  "standoff \<lparr>x = Num 0, y = NegZero\<rparr> ''bottom'' (Num 0) = \<lparr>x = Num 0, y = Num 0\<rparr>"
  by (simp_all add: standoff_def plus_double_def add_double_def is_nan_def is_inf_def
      signed_zero_def)

text \<open>
  Why the negative zero is not on the grid. A sum that is exactly zero is \<open>+0\<close>, so a
  coordinate \<open>-0\<close> does not come back from a shift and the shift against it; two shifts
  that cancel leave \<open>+0\<close> where the one shift by their sum, \<open>+0\<close>, leaves \<open>-0\<close>; and the
  midpoint of \<open>-0\<close> and \<open>-0\<close> is \<open>+0\<close>.
\<close>

lemma standoff_opposite_negative_zero:
  "standoff (standoff \<lparr>x = Num 0, y = NegZero\<rparr> ''top'' (Num 28)) (oppositeSide ''top'') (Num 28)
   = \<lparr>x = Num 0, y = Num 0\<rparr>"
proof -
  have "NegZero - Num 28 = Num (- 28)"
    using round_rat_exact [of "- 28"]
    by (simp add: minus_double_def add_double_def is_nan_def is_inf_def)
  moreover have "Num (- 28) + Num 28 = Num 0"
    by (simp add: add_Num)
  ultimately show ?thesis
    by (simp add: standoff_def oppositeSide_def)
qed

lemma standoff_twice_negative_zero:
  "standoff (standoff \<lparr>x = Num 0, y = NegZero\<rparr> ''top'' (Num 28)) ''top'' (Num (- 28))
   = \<lparr>x = Num 0, y = Num 0\<rparr>"
  "standoff \<lparr>x = Num 0, y = NegZero\<rparr> ''top'' (Num 28 + Num (- 28))
   = \<lparr>x = Num 0, y = NegZero\<rparr>"
proof -
  have a: "NegZero - Num 28 = Num (- 28)"
    using round_rat_exact [of "- 28"]
    by (simp add: minus_double_def add_double_def is_nan_def is_inf_def)
  have b: "Num (- 28) - Num (- 28) = Num 0"
    by (simp add: sub_Num)
  have c: "Num 28 + Num (- 28) = Num 0"
    by (simp add: add_Num)
  have d: "NegZero - Num 0 = NegZero"
    by (simp add: minus_double_def add_double_def is_nan_def is_inf_def signed_zero_def)
  show "standoff (standoff \<lparr>x = Num 0, y = NegZero\<rparr> ''top'' (Num 28)) ''top'' (Num (- 28))
        = \<lparr>x = Num 0, y = Num 0\<rparr>"
    by (simp add: standoff_def a b)
  show "standoff \<lparr>x = Num 0, y = NegZero\<rparr> ''top'' (Num 28 + Num (- 28))
        = \<lparr>x = Num 0, y = NegZero\<rparr>"
    by (simp add: standoff_def c d)
qed

lemma midpoint_negative_zero:
  "midpoint \<lparr>x = NegZero, y = NegZero\<rparr> \<lparr>x = NegZero, y = NegZero\<rparr> = \<lparr>x = Num 0, y = Num 0\<rparr>"
  by (simp add: midpoint_def minus_double_def plus_double_def times_double_def add_double_def
      mul_double_def is_nan_def is_inf_def signed_zero_def)

section \<open>Reading back what the polyline builder writes\<close>

lemma split_sp_word: "CHR '' '' \<notin> set t \<Longrightarrow> split_sp t = [t]"
  by (induction t) auto

lemma split_sp_append: "CHR '' '' \<notin> set t \<Longrightarrow> split_sp (t @ CHR '' '' # s) = t # split_sp s"
  by (induction t) auto

lemma split_sp_line_to:
  assumes "word a" "word b"
  shows "split_sp (''L '' @ a @ '' '' @ b) = [''L'', a, b]"
    and "split_sp (''L '' @ a @ '' '' @ b @ '' '' @ s) = ''L'' # a # b # split_sp s"
  using assms split_sp_append [of a "b"] split_sp_append [of a "b @ CHR '' '' # s"]
    split_sp_append [of b s] split_sp_word [of b]
  by (simp_all add: word_def)

lemma split_sp_join:
  assumes "words_ok str ps" "ps \<noteq> []"
  shows "split_sp (join '' '' (map (\<lambda>p. ''L '' @ str (x p) @ '' '' @ str (y p)) ps))
         = concat (map (\<lambda>p. [''L'', str (x p), str (y p)]) ps)"
  using assms
proof (induction ps rule: induct_list012)
  case 1
  then show ?case by simp
next
  case (2 p)
  then show ?case using split_sp_line_to(1) [of "str (x p)" "str (y p)"]
    by (simp add: words_ok_def)
next
  case (3 p q ps)
  then show ?case
    using split_sp_line_to(2) [of "str (x p)" "str (y p)"]
    by (simp add: words_ok_def)
qed

lemma line_tos_written:
  "words_ok str ps \<Longrightarrow>
   line_tos (concat (map (\<lambda>p. [''L'', str (x p), str (y p)]) ps)) = Some (map (written str) ps)"
  by (induction ps) (simp_all add: words_ok_def written_def)

lemma path_points_polyline:
  assumes "2 \<le> length ps" "words_ok str ps"
  shows "path_points (buildPolylinePath str ps) = Some (map (written str) ps)"
proof -
  from assms(1) obtain p rest where ps: "ps = p # rest" and rest: "rest \<noteq> []"
    by (cases ps) (auto simp: Suc_le_eq)
  from assms(2) ps have wp: "word (str (x p))" "word (str (y p))" and wr: "words_ok str rest"
    by (simp_all add: words_ok_def)
  let ?tail = "join '' '' (map (\<lambda>p. ''L '' @ str (x p) @ '' '' @ str (y p)) rest)"
  have "split_sp (''M '' @ str (x p) @ '' '' @ str (y p) @ '' '' @ ?tail)
        = ''M'' # str (x p) # str (y p) # split_sp ?tail"
    using wp split_sp_append [of "str (x p)" "str (y p) @ CHR '' '' # ?tail"]
      split_sp_append [of "str (y p)" ?tail]
    by (simp add: word_def)
  then show ?thesis
    using ps rest wp split_sp_join [OF wr rest] line_tos_written [OF wr] assms(1)
    by (simp add: path_points_def buildPolylinePath_def written_def)
qed

lemma words_ok_rev: "words_ok str (rev ps) = words_ok str ps"
  by (simp add: words_ok_def)

lemma example_points_written:
  "words_ok intString
     [\<lparr>x = Num 1, y = Num 2\<rparr>, \<lparr>x = Num 30, y = Num 4\<rparr>, \<lparr>x = Num 30, y = Num (- 16)\<rparr>]"
  "map (written intString)
     [\<lparr>x = Num 1, y = Num 2\<rparr>, \<lparr>x = Num 30, y = Num 4\<rparr>, \<lparr>x = Num 30, y = Num (- 16)\<rparr>]
   = [(''1'', ''2''), (''30'', ''4''), (''30'', ''-16'')]"
  by code_simp+

section \<open>The tests of the source file\<close>

text \<open>The test of \<^verbatim>\<open>buildLinePath\<close>: a line from \<open>(1, 2)\<close> to \<open>(3, 4)\<close>.\<close>

lemma buildLinePath_test:
  "buildLinePath intString \<lparr>x = Num 1, y = Num 2\<rparr> \<lparr>x = Num 3, y = Num 4\<rparr> = ''M 1 2 L 3 4''"
  by code_simp

text \<open>The tests of \<^verbatim>\<open>anchorPoint\<close>, and the centre of their rectangle.\<close>

lemma rectCenter_test:
  "rectCenter \<lparr>x = Num 100, y = Num 50, w = Num 200, h = Num 100\<rparr> = \<lparr>x = Num 200, y = Num 100\<rparr>"
proof -
  have "Num 200 / Num 2 = Num 100" and "Num 100 / Num 2 = Num 50"
    using round_rat_exact [of 100] round_rat_exact [of 50] by (simp_all add: div_Num)
  moreover have "Num 100 + Num 100 = Num 200" and "Num 50 + Num 50 = Num 100"
    using add_exact [of 100 100] add_exact [of 50 50] by simp_all
  ultimately show ?thesis
    by (simp add: rectCenter_def)
qed

lemma anchorPoint_test:
  "anchorPoint \<lparr>x = Num 100, y = Num 50, w = Num 200, h = Num 100\<rparr> ''top''
     = \<lparr>x = Num 200, y = Num 50\<rparr>"
  "anchorPoint \<lparr>x = Num 100, y = Num 50, w = Num 200, h = Num 100\<rparr> ''left''
     = \<lparr>x = Num 100, y = Num 100\<rparr>"
  by (simp_all add: anchorPoint_def Let_def rectCenter_test rectEdges_def)

section \<open>The claims\<close>

text \<open>
  Claim C1. For all rectangles, sides and via points (none included), \<^verbatim>\<open>routed\<close>
  (\<^verbatim>\<open>routeConnector\<close>) returns the start port, the start port moved outward by 28, the
  via points in the order given, the end port moved outward by 28, and the end port. With
  no via point these are exactly four points; from the right side of a rectangle \<open>a\<close> to
  the left side of a rectangle \<open>b\<close> they are the right port of \<open>a\<close>, that port 28 further
  right, the left port of \<open>b\<close> 28 further left, and the left port of \<open>b\<close>.
\<close>

theorem routed_is_concatenation:
  "routed startRect startSide endRect endSide via
     = [anchorPoint startRect startSide,
        standoff (anchorPoint startRect startSide) startSide (Num 28)]
       @ via
       @ [standoff (anchorPoint endRect endSide) endSide (Num 28),
          anchorPoint endRect endSide]
   \<and> routed startRect startSide endRect endSide []
     = [anchorPoint startRect startSide,
        standoff (anchorPoint startRect startSide) startSide (Num 28),
        standoff (anchorPoint endRect endSide) endSide (Num 28),
        anchorPoint endRect endSide]
   \<and> length (routed startRect startSide endRect endSide []) = 4
   \<and> routed a ''right'' b ''left'' []
     = [\<lparr>x = x a + w a, y = y a + h a / Num 2\<rparr>,
        \<lparr>x = x a + w a + Num 28, y = y a + h a / Num 2\<rparr>,
        \<lparr>x = x b - Num 28, y = y b + h b / Num 2\<rparr>,
        \<lparr>x = x b, y = y b + h b / Num 2\<rparr>]"
  by (simp add: routed_def Let_def anchorPoint_def standoff_def rectCenter_def rectEdges_def)

text \<open>
  Claim C2. Whatever the via points are, the first point \<^verbatim>\<open>routed\<close> returns is the
  anchor point of the start rectangle's side and the last one is the anchor point of the
  end rectangle's side.
\<close>

theorem routed_first_last:
  "hd (routed startRect startSide endRect endSide via) = anchorPoint startRect startSide
   \<and> last (routed startRect startSide endRect endSide via) = anchorPoint endRect endSide"
  by (simp add: routed_def Let_def)

text \<open>
  Claim C3. For every rectangle the anchor point of a side is the midpoint of that edge as
  the code computes it: \<open>(x + w / 2, y)\<close> for top, \<open>(x + w / 2, y + h)\<close> for bottom,
  \<open>(x, y + h / 2)\<close> for left and \<open>(x + w, y + h / 2)\<close> for right. The top and bottom
  anchors have the \<open>x\<close> of \<^verbatim>\<open>rectCenter\<close>, the left and right anchors its \<open>y\<close>, and
  each anchor has the coordinate of its edge as \<^verbatim>\<open>rectEdges\<close> gives it. This holds for
  every width and height, the positive ones included.
\<close>

theorem anchorPoint_edge_midpoints:
  "anchorPoint r ''top'' = \<lparr>x = x r + w r / Num 2, y = y r\<rparr>
   \<and> anchorPoint r ''bottom'' = \<lparr>x = x r + w r / Num 2, y = y r + h r\<rparr>
   \<and> anchorPoint r ''left'' = \<lparr>x = x r, y = y r + h r / Num 2\<rparr>
   \<and> anchorPoint r ''right'' = \<lparr>x = x r + w r, y = y r + h r / Num 2\<rparr>
   \<and> x (anchorPoint r ''top'') = x (rectCenter r)
   \<and> x (anchorPoint r ''bottom'') = x (rectCenter r)
   \<and> y (anchorPoint r ''left'') = y (rectCenter r)
   \<and> y (anchorPoint r ''right'') = y (rectCenter r)
   \<and> y (anchorPoint r ''top'') = top' (rectEdges r)
   \<and> y (anchorPoint r ''bottom'') = bottom (rectEdges r)
   \<and> x (anchorPoint r ''left'') = left (rectEdges r)
   \<and> x (anchorPoint r ''right'') = right (rectEdges r)"
  by (simp add: anchorPoint_def Let_def rectCenter_def rectEdges_def)

text \<open>
  Claim C4. For a list of fewer than two points \<^verbatim>\<open>buildPolylinePath\<close> returns the empty
  string, which denotes no path; the function has no failing branch. For a list of at
  least two points, each coordinate written as a word, the descriptor visits every point
  of the list in the order given.
\<close>

theorem buildPolylinePath_short_and_long:
  "(length points < 2 \<longrightarrow> buildPolylinePath str points = [])
   \<and> path_points [] = None
   \<and> (2 \<le> length points \<and> words_ok str points \<longrightarrow>
        path_points (buildPolylinePath str points) = Some (map (written str) points))"
  using path_points_polyline [of points str]
  by (simp add: buildPolylinePath_def path_points_def)

theorem buildPolylinePath_short_and_long_witness:
  "length ([] :: Pt list) < 2 \<and> buildPolylinePath intString [] = []
   \<and> length [\<lparr>x = Num 7, y = Num 8\<rparr>] < 2
   \<and> buildPolylinePath intString [\<lparr>x = Num 7, y = Num 8\<rparr>] = []
   \<and> 2 \<le> length [\<lparr>x = Num 1, y = Num 2\<rparr>, \<lparr>x = Num 30, y = Num 4\<rparr>, \<lparr>x = Num 30, y = Num (- 16)\<rparr>]
   \<and> words_ok intString
        [\<lparr>x = Num 1, y = Num 2\<rparr>, \<lparr>x = Num 30, y = Num 4\<rparr>, \<lparr>x = Num 30, y = Num (- 16)\<rparr>]
   \<and> path_points (buildPolylinePath intString
        [\<lparr>x = Num 1, y = Num 2\<rparr>, \<lparr>x = Num 30, y = Num 4\<rparr>, \<lparr>x = Num 30, y = Num (- 16)\<rparr>])
      = Some [(''1'', ''2''), (''30'', ''4''), (''30'', ''-16'')]"
  using buildPolylinePath_short_and_long [of "[]" intString]
    buildPolylinePath_short_and_long [of "[\<lparr>x = Num 7, y = Num 8\<rparr>]" intString]
    buildPolylinePath_short_and_long
      [of "[\<lparr>x = Num 1, y = Num 2\<rparr>, \<lparr>x = Num 30, y = Num 4\<rparr>, \<lparr>x = Num 30, y = Num (- 16)\<rparr>]"
        intString]
    example_points_written
  by simp




text \<open>
  Claim C6. For every side other than the four recognised ones \<^verbatim>\<open>anchorPoint\<close> returns
  the centre of the rectangle (the \<^verbatim>\<open>default\<close> branch); it does not fail.
\<close>

theorem anchorPoint_unrecognized_side:
  "side \<notin> {''top'', ''right'', ''bottom'', ''left''} \<Longrightarrow> anchorPoint r side = rectCenter r"
  by (simp add: anchorPoint_def Let_def)

theorem anchorPoint_unrecognized_side_witness:
  "''middle'' \<notin> {''top'', ''right'', ''bottom'', ''left''}
   \<and> anchorPoint \<lparr>x = Num 100, y = Num 50, w = Num 200, h = Num 100\<rparr> ''middle''
     = \<lparr>x = Num 200, y = Num 100\<rparr>"
proof -
  have side: "''middle'' \<notin> {''top'', ''right'', ''bottom'', ''left''}"
    by simp
  from anchorPoint_unrecognized_side [OF side] side show ?thesis
    by (simp add: rectCenter_test)
qed

text \<open>
  Claim C7, as amended. \<^verbatim>\<open>midpoint\<close> is the interpolation at parameter 0.5 as the code
  writes it, \<open>(a.x + (b.x - a.x) * 0.5, a.y + (b.y - a.y) * 0.5)\<close>. For points on the
  half-unit grid (coordinates that are multiples of one half of magnitude at most
  \<open>2\<^sup>4\<^sup>9\<close>, none of them the negative zero \<open>-0\<close>) it is the exact midpoint, and
  \<^verbatim>\<open>midpoint\<close> of \<open>a\<close> and \<open>b\<close> is
  \<^verbatim>\<open>midpoint\<close> of \<open>b\<close> and \<open>a\<close>. The symmetry as stated, for all points, fails where the
  difference rounds: between \<open>x = 1\<close> and \<open>x = 2\<^sup>5\<^sup>3 + 2\<close> the two orders give
  \<open>2\<^sup>5\<^sup>2 + 1\<close> and \<open>2\<^sup>5\<^sup>2 + 2\<close>.
\<close>

theorem midpoint_on_grid:
  "midpoint a b
     = \<lparr>x = x a + (x b - x a) * Num (1 / 2), y = y a + (y b - y a) * Num (1 / 2)\<rparr>
   \<and> (on_grid (x a) \<and> on_grid (y a) \<and> on_grid (x b) \<and> on_grid (y b)
    \<longrightarrow> midpoint a b = \<lparr>x = Num ((val (x a) + val (x b)) / 2),
                           y = Num ((val (y a) + val (y b)) / 2)\<rparr>
        \<and> midpoint a b = midpoint b a)"
proof (intro conjI impI)
  show "midpoint a b
     = \<lparr>x = x a + (x b - x a) * Num (1 / 2), y = y a + (y b - y a) * Num (1 / 2)\<rparr>"
    by (simp add: midpoint_def)
next
  assume g: "on_grid (x a) \<and> on_grid (y a) \<and> on_grid (x b) \<and> on_grid (y b)"
  then have ab: "midpoint a b = \<lparr>x = Num ((val (x a) + val (x b)) / 2),
                                   y = Num ((val (y a) + val (y b)) / 2)\<rparr>"
    by (simp add: midpoint_def grid_midpoint)
  from g have ba: "midpoint b a = \<lparr>x = Num ((val (x b) + val (x a)) / 2),
                                     y = Num ((val (y b) + val (y a)) / 2)\<rparr>"
    by (simp add: midpoint_def grid_midpoint)
  show "midpoint a b = \<lparr>x = Num ((val (x a) + val (x b)) / 2),
                         y = Num ((val (y a) + val (y b)) / 2)\<rparr>"
    by (rule ab)
  show "midpoint a b = midpoint b a"
    unfolding ab ba by (simp add: add.commute)
qed

theorem midpoint_on_grid_witness:
  "on_grid (Num 0) \<and> on_grid (Num 10) \<and> on_grid (Num 20)
   \<and> midpoint \<lparr>x = Num 0, y = Num 0\<rparr> \<lparr>x = Num 10, y = Num 20\<rparr> = \<lparr>x = Num 5, y = Num 10\<rparr>
   \<and> midpoint \<lparr>x = Num 10, y = Num 20\<rparr> \<lparr>x = Num 0, y = Num 0\<rparr> = \<lparr>x = Num 5, y = Num 10\<rparr>"
proof -
  have g: "on_grid (Num 0)" "on_grid (Num 10)" "on_grid (Num 20)"
    by (simp_all add: on_grid_def)
  from midpoint_on_grid [THEN conjunct2, of "\<lparr>x = Num 0, y = Num 0\<rparr>" "\<lparr>x = Num 10, y = Num 20\<rparr>"] g
  have m: "midpoint \<lparr>x = Num 0, y = Num 0\<rparr> \<lparr>x = Num 10, y = Num 20\<rparr> = \<lparr>x = Num 5, y = Num 10\<rparr>"
    and sym: "midpoint \<lparr>x = Num 0, y = Num 0\<rparr> \<lparr>x = Num 10, y = Num 20\<rparr>
              = midpoint \<lparr>x = Num 10, y = Num 20\<rparr> \<lparr>x = Num 0, y = Num 0\<rparr>"
    by auto
  from sym [symmetric] m
  have "midpoint \<lparr>x = Num 10, y = Num 20\<rparr> \<lparr>x = Num 0, y = Num 0\<rparr> = \<lparr>x = Num 5, y = Num 10\<rparr>"
    by (rule trans)
  with m g show ?thesis
    by simp
qed

theorem midpoint_symmetry_counterexample:
  "midpoint \<lparr>x = Num 1, y = Num 0\<rparr> \<lparr>x = Num 9007199254740994, y = Num 0\<rparr>
     = \<lparr>x = Num 4503599627370497, y = Num 0\<rparr>
   \<and> midpoint \<lparr>x = Num 9007199254740994, y = Num 0\<rparr> \<lparr>x = Num 1, y = Num 0\<rparr>
     = \<lparr>x = Num 4503599627370498, y = Num 0\<rparr>
   \<and> midpoint \<lparr>x = Num 1, y = Num 0\<rparr> \<lparr>x = Num 9007199254740994, y = Num 0\<rparr>
     \<noteq> midpoint \<lparr>x = Num 9007199254740994, y = Num 0\<rparr> \<lparr>x = Num 1, y = Num 0\<rparr>"
proof -
  have d1: "Num 9007199254740994 - Num 1 = Num 9007199254740992"
    by (simp add: sub_Num round_2p53_plus_1)
  have h1: "Num 9007199254740992 * Num (1 / 2) = Num 4503599627370496"
    by (simp add: mul_Num round_near_2p52)
  have s1: "Num 1 + Num 4503599627370496 = Num 4503599627370497"
    by (simp add: add_Num round_near_2p52)
  have d2: "Num 1 - Num 9007199254740994 = Num (- 9007199254740992)"
    by (simp add: sub_Num round_2p53_plus_1)
  have h2: "Num (- 9007199254740992) * Num (1 / 2) = Num (- 4503599627370496)"
    by (simp add: mul_Num round_near_2p52)
  have s2: "Num 9007199254740994 + Num (- 4503599627370496) = Num 4503599627370498"
    by (simp add: add_Num round_near_2p52)
  have z: "Num 0 + (Num 0 - Num 0) * Num (1 / 2) = Num 0"
    by (simp add: add_Num sub_Num mul_Num signed_zero_def)
  show ?thesis
    by (simp add: midpoint_def d1 h1 s1 d2 h2 s2 z)
qed

text \<open>
  Claim C8. For a list of at least two points, each coordinate written as a word, the
  descriptor \<^verbatim>\<open>Flow\<close> builds from the reversed copy of the list visits exactly the points
  of the forward descriptor, in reverse order; the reversed copy is the list reversed,
  nothing is recomputed.
\<close>

theorem reversed_polyline_visits_reversed:
  assumes "2 \<le> length points" and "words_ok str points"
  shows "Flow_paths str points = (buildPolylinePath str points, buildPolylinePath str (rev points))
         \<and> path_points (fst (Flow_paths str points)) = Some (map (written str) points)
         \<and> path_points (snd (Flow_paths str points)) = Some (rev (map (written str) points))"
  using assms path_points_polyline [of points str] path_points_polyline [of "rev points" str]
  by (simp add: Flow_paths_def Let_def words_ok_rev rev_map)

theorem reversed_polyline_visits_reversed_witness:
  "2 \<le> length [\<lparr>x = Num 1, y = Num 2\<rparr>, \<lparr>x = Num 30, y = Num 4\<rparr>, \<lparr>x = Num 30, y = Num (- 16)\<rparr>]
   \<and> words_ok intString
        [\<lparr>x = Num 1, y = Num 2\<rparr>, \<lparr>x = Num 30, y = Num 4\<rparr>, \<lparr>x = Num 30, y = Num (- 16)\<rparr>]
   \<and> path_points (fst (Flow_paths intString
        [\<lparr>x = Num 1, y = Num 2\<rparr>, \<lparr>x = Num 30, y = Num 4\<rparr>, \<lparr>x = Num 30, y = Num (- 16)\<rparr>]))
      = Some [(''1'', ''2''), (''30'', ''4''), (''30'', ''-16'')]
   \<and> path_points (snd (Flow_paths intString
        [\<lparr>x = Num 1, y = Num 2\<rparr>, \<lparr>x = Num 30, y = Num 4\<rparr>, \<lparr>x = Num 30, y = Num (- 16)\<rparr>]))
      = Some [(''30'', ''-16''), (''30'', ''4''), (''1'', ''2'')]"
proof -
  let ?ps = "[\<lparr>x = Num 1, y = Num 2\<rparr>, \<lparr>x = Num 30, y = Num 4\<rparr>, \<lparr>x = Num 30, y = Num (- 16)\<rparr>]"
  have len: "2 \<le> length ?ps"
    by simp
  from reversed_polyline_visits_reversed [OF len example_points_written(1)]
  have "path_points (fst (Flow_paths intString ?ps)) = Some (map (written intString) ?ps)
        \<and> path_points (snd (Flow_paths intString ?ps)) = Some (rev (map (written intString) ?ps))"
    by blast
  then show ?thesis
    unfolding example_points_written(2) using len example_points_written(1) by simp
qed

text \<open>
  Claim C9, as amended. For a point and a distance on the half-unit grid (coordinates
  and distance multiples of one half of magnitude at most \<open>2\<^sup>4\<^sup>9\<close>, none of them the
  negative zero \<open>-0\<close>), \<^verbatim>\<open>standoff\<close>
  on a side and then on the opposite side by the same distance returns the point. As
  stated, for all points and distances, it fails where the first step rounds: from
  \<open>y = 1\<close>, \<open>2\<^sup>5\<^sup>4\<close> up and \<open>2\<^sup>5\<^sup>4\<close> down end at \<open>y = 0\<close>.
\<close>

theorem standoff_opposite_on_grid:
  assumes "on_grid (x p)" and "on_grid (y p)" and "on_grid d"
  shows "standoff (standoff p side d) (oppositeSide side) d = p"
proof -
  from assms have "y p - d + d = y p" and "x p + d - d = x p"
    and "y p + d - d = y p" and "x p - d + d = x p"
    by (simp_all add: grid_sub_add)
  then show ?thesis
    by (simp add: standoff_def oppositeSide_def)
qed

theorem standoff_opposite_on_grid_witness:
  "on_grid (Num 100) \<and> on_grid (Num 50) \<and> on_grid (Num 28)
   \<and> standoff (standoff \<lparr>x = Num 100, y = Num 50\<rparr> ''top'' (Num 28)) (oppositeSide ''top'') (Num 28)
     = \<lparr>x = Num 100, y = Num 50\<rparr>
   \<and> standoff \<lparr>x = Num 100, y = Num 50\<rparr> ''top'' (Num 28) = \<lparr>x = Num 100, y = Num 22\<rparr>"
proof -
  have g: "on_grid (Num 100)" "on_grid (Num 50)" "on_grid (Num 28)"
    by (simp_all add: on_grid_def)
  have v: "Num 50 - Num 28 = Num 22"
    using sub_exact [of 50 28] by simp
  show ?thesis
    using standoff_opposite_on_grid [of "\<lparr>x = Num 100, y = Num 50\<rparr>" "Num 28" "''top''"] g
    by (simp add: v standoff_def)
qed

theorem standoff_opposite_counterexample:
  "standoff \<lparr>x = Num 0, y = Num 1\<rparr> ''top'' (Num 18014398509481984)
     = \<lparr>x = Num 0, y = Num (- 18014398509481984)\<rparr>
   \<and> standoff (standoff \<lparr>x = Num 0, y = Num 1\<rparr> ''top'' (Num 18014398509481984))
        (oppositeSide ''top'') (Num 18014398509481984)
     = \<lparr>x = Num 0, y = Num 0\<rparr>
   \<and> standoff (standoff \<lparr>x = Num 0, y = Num 1\<rparr> ''top'' (Num 18014398509481984))
        (oppositeSide ''top'') (Num 18014398509481984)
     \<noteq> \<lparr>x = Num 0, y = Num 1\<rparr>"
proof -
  have d: "Num 1 - Num 18014398509481984 = Num (- 18014398509481984)"
    by (simp add: sub_Num round_1_minus_2p54)
  have s: "Num (- 18014398509481984) + Num 18014398509481984 = Num 0"
    by (simp add: add_Num)
  show ?thesis
    by (simp add: standoff_def oppositeSide_def d s)
qed

text \<open>
  Claim C10. For all points \<open>a\<close> and \<open>b\<close>, \<^verbatim>\<open>buildPolylinePath\<close> of the list \<open>[a, b]\<close> is
  the very string \<^verbatim>\<open>buildLinePath\<close> returns for \<open>a\<close> and \<open>b\<close>.
\<close>

theorem polyline_of_two_is_line:
  "buildPolylinePath str [a, b] = buildLinePath str a b"
  by (simp add: buildPolylinePath_def buildLinePath_def)

end
